theory Spec2Isabelle
  imports Complex_Main
begin

section \<open>JavaScript values\<close>

text \<open>
  The dashboard is plain JavaScript over rows parsed from a CSV or Excel file. This
  section fixes the fragment of the language's values and built-in operations that the
  filter engine (\<open>Filters\<close>), the aggregator (\<open>DataProcessor\<close>) and the loader
  (\<open>DataLoader\<close>) use.

  A number is \<open>NaN\<close> or a finite value. The code only compares numbers, rounds them with
  \<open>Math.floor\<close> and \<open>Math.ceil\<close> and takes minima and maxima, all of which are exact on
  IEEE doubles, so a finite number is modelled by the rational it denotes. The infinities
  are not modelled: an age cell with the text \<open>Infinity\<close>, which \<open>processData\<close> keeps as a
  number, is outside the rows described here, and every statement below about ages is a
  statement about finite ages.
\<close>

datatype jsnum = NaN | Num rat

fun isNaN :: "jsnum \<Rightarrow> bool" where
  "isNaN NaN = True"
| "isNaN (Num q) = False"

text \<open>\<open>a < b\<close> and \<open>a > b\<close> on numbers: false as soon as one side is \<open>NaN\<close>.\<close>

fun js_less :: "jsnum \<Rightarrow> jsnum \<Rightarrow> bool" where
  "js_less (Num a) (Num b) = (a < b)"
| "js_less _ _ = False"

definition js_greater :: "jsnum \<Rightarrow> jsnum \<Rightarrow> bool" where
  "js_greater a b = js_less b a"

text \<open>\<open>a - b\<close> on numbers.\<close>

fun js_minus :: "jsnum \<Rightarrow> jsnum \<Rightarrow> jsnum" where
  "js_minus (Num a) (Num b) = Num (a - b)"
| "js_minus _ _ = NaN"

text \<open>
  A cell of a category column (company, purpose, month, sex, label, finding, ICD code) as
  the parsers leave it: \<open>null\<close>, \<open>undefined\<close> (the column is absent), a boolean, a number
  (the CSV parser turns an all-digit cell into a number; only integers are modelled in
  these columns) or a string.
\<close>

datatype cell = CNull | CUndefined | CBool bool | CNum int | CStr string

text \<open>Truthiness, as \<open>if (v)\<close>, \<open>!v\<close> and \<open>v || d\<close> test it.\<close>

fun truthy :: "cell \<Rightarrow> bool" where
  "truthy CNull = False"
| "truthy CUndefined = False"
| "truthy (CBool b) = b"
| "truthy (CNum n) = (n \<noteq> 0)"
| "truthy (CStr s) = (s \<noteq> [])"

subsection \<open>Strings\<close>

text \<open>
  The decimal digits of an integer that is not negative, and the decimal numeral of any
  integer, which is \<open>String(i)\<close> for the integers below \<open>10\<^sup>2\<^sup>1\<close> in magnitude (years,
  months and days are).
\<close>

definition digit :: "int \<Rightarrow> char" where
  "digit d = char_of (48 + d)"

function showNat :: "int \<Rightarrow> string" where
  "showNat n = (if n < 10 then [digit n] else showNat (n div 10) @ [digit (n mod 10)])"
  by pat_completeness auto
termination
  by (relation "measure nat") auto

declare showNat.simps [simp del]

definition showInt :: "int \<Rightarrow> string" where
  "showInt i = (if i < 0 then CHR ''-'' # showNat (- i) else showNat i)"

text \<open>
  \<open>String(n)\<close> for a number \<open>n\<close> that is an integer: all its digits below \<open>10\<^sup>2\<^sup>1\<close> in
  magnitude, and from there on the exponent form, as in \<open>1e+21\<close> and \<open>1.5e+21\<close>: the digits
  without their trailing zeros, a point after the first of them when there are more, and
  the exponent. The digits are those of the integer itself. The language prints the
  shortest digits that read back as the same double, and zeros after them: these are the
  integer's own digits whenever it has no more than 15 digits before its trailing zeros,
  and otherwise digits that \<open>parseInt\<close> reads back as the same double.
\<close>

definition showExponent :: "int \<Rightarrow> string" where
  "showExponent n =
     (let ds = showNat n;
          s = rev (dropWhile (\<lambda>c. c = CHR ''0'') (rev ds));
          mantissa = (if length s \<le> 1 then s else hd s # CHR ''.'' # tl s)
      in mantissa @ ''e+'' @ showNat (int (length ds) - 1))"

definition showNumber :: "int \<Rightarrow> string" where
  "showNumber i =
     (if \<bar>i\<bar> < 10 ^ 21 then showInt i
      else if i < 0 then CHR ''-'' # showExponent (- i) else showExponent i)"

text \<open>\<open>String(v)\<close>, which is also the coercion of a property key \<open>obj[v]\<close>.\<close>

fun String_js :: "cell \<Rightarrow> string" where
  "String_js CNull = ''null''"
| "String_js CUndefined = ''undefined''"
| "String_js (CBool b) = (if b then ''true'' else ''false'')"
| "String_js (CNum n) = showNumber n"
| "String_js (CStr s) = s"

text \<open>\<open>s.padStart(n, c)\<close> for a one-character pad.\<close>

definition padStart :: "nat \<Rightarrow> char \<Rightarrow> string \<Rightarrow> string" where
  "padStart n c s = replicate (n - length s) c @ s"

text \<open>\<open>s.split(c)\<close> for a one-character separator: never the empty list.\<close>

primrec splitOn :: "char \<Rightarrow> string \<Rightarrow> string list" where
  "splitOn c [] = [[]]"
| "splitOn c (x # xs) =
     (if x = c then [] # splitOn c xs
      else (case splitOn c xs of [] \<Rightarrow> [[x]] | p # ps \<Rightarrow> (x # p) # ps))"



definition isDigit :: "char \<Rightarrow> bool" where
  "isDigit c = (let n = (of_char c :: int) in 48 \<le> n \<and> n \<le> 57)"

text \<open>The number a text of decimal digits denotes.\<close>

definition readNat :: "string \<Rightarrow> int" where
  "readNat s = foldl (\<lambda>acc c. 10 * acc + (of_char c - 48)) 0 s"

text \<open>
  \<open>Number(s)\<close> for a text of decimal digits, the empty text included (it is 0). These are
  the texts that the value of a date input splits into at its hyphens. Every other text is
  given \<open>NaN\<close> here, which is what \<open>Number\<close> makes of a text that is no numeric literal;
  signs, fractions, exponents, other radixes and white space are not modelled.
\<close>

definition Number_js :: "string \<Rightarrow> jsnum" where
  "Number_js s = (if list_all isDigit s then Num (of_int (readNat s)) else NaN)"

text \<open>
  \<open>parseInt(s)\<close> for a text without leading white space and without the prefix \<open>0x\<close>
  (the value of a slider is a decimal numeral): an optional sign, then the longest run of
  decimal digits, read as an integer; \<open>NaN\<close> when there is no digit. Whatever follows the
  digits is ignored, so \<open>parseInt('1e+21')\<close> is 1.
\<close>

definition parseInt_js :: "string \<Rightarrow> jsnum" where
  "parseInt_js s =
     (let signed = (s \<noteq> [] \<and> (hd s = CHR ''+'' \<or> hd s = CHR ''-''));
          neg = (s \<noteq> [] \<and> hd s = CHR ''-'');
          ds = takeWhile isDigit (if signed then tl s else s)
      in if ds = [] then NaN
         else Num (of_int (if neg then - readNat ds else readNat ds)))"

text \<open>
  The element of an array at an index, as a number: destructuring past the end of an
  array gives \<open>undefined\<close>, which arithmetic and \<open>new Date\<close> take as \<open>NaN\<close>.
\<close>

definition item :: "jsnum list \<Rightarrow> nat \<Rightarrow> jsnum" where
  "item xs i = (if i < length xs then xs ! i else NaN)"

subsection \<open>Arrays: stable sort with a comparator\<close>

text \<open>
  \<open>xs.sort(cmp)\<close> is stable, and for a comparator that is a consistent order every stable
  sort returns the same array; it is modelled by insertion sort. An element moves behind
  another only when the comparator is positive, so a \<open>NaN\<close> comparison leaves the two
  in place.
\<close>

fun isPositive :: "jsnum \<Rightarrow> bool" where
  "isPositive (Num q) = (0 < q)"
| "isPositive NaN = False"

fun insertBy :: "('a \<Rightarrow> 'a \<Rightarrow> jsnum) \<Rightarrow> 'a \<Rightarrow> 'a list \<Rightarrow> 'a list" where
  "insertBy cmp x [] = [x]"
| "insertBy cmp x (y # ys) =
     (if isPositive (cmp x y) then y # insertBy cmp x ys else x # y # ys)"

definition sortBy :: "('a \<Rightarrow> 'a \<Rightarrow> jsnum) \<Rightarrow> 'a list \<Rightarrow> 'a list" where
  "sortBy cmp xs = foldr (insertBy cmp) xs []"

subsection \<open>Objects used as dictionaries, and Sets\<close>

text \<open>
  \<open>const grouped = {}\<close>: the own properties of the object, in the order of their creation.
  Assigning to an existing key keeps its place. \<open>objGet\<close> reads an own property, which is
  what \<open>obj[k]\<close> does for every key that \<open>Object.prototype\<close> does not define.
\<close>

type_synonym 'v obj = "(string \<times> 'v) list"

definition objGet :: "'v obj \<Rightarrow> string \<Rightarrow> 'v option" where
  "objGet obj k = map_of obj k"

text \<open>
  The property names of \<open>Object.prototype\<close>. For these keys \<open>obj[k]\<close> on an object made
  by \<open>{}\<close> finds the inherited property, a function (or, for \<open>__proto__\<close>, the prototype
  itself): a truthy value that is neither a number nor a Set. The date keys and the
  age brackets are never among them; a finding or a sex read from a file can be, and
  \<open>getTopFindings\<close> and \<open>getSexDistribution\<close> below say what happens then.
\<close>

definition Object_prototype :: "string list" where
  "Object_prototype =
     [''constructor'', ''__defineGetter__'', ''__defineSetter__'', ''hasOwnProperty'',
      ''__lookupGetter__'', ''__lookupSetter__'', ''isPrototypeOf'', ''propertyIsEnumerable'',
      ''toString'', ''valueOf'', ''__proto__'', ''toLocaleString'']"

definition inherited :: "string \<Rightarrow> bool" where
  "inherited k = (k \<in> set Object_prototype)"

fun objSet :: "'v obj \<Rightarrow> string \<Rightarrow> 'v \<Rightarrow> 'v obj" where
  "objSet [] k v = [(k, v)]"
| "objSet (p # ps) k v = (if fst p = k then (k, v) # ps else p # objSet ps k v)"

text \<open>
  A key is an array index when it is the canonical decimal text of an integer from 0 to
  \<open>2\<^sup>3\<^sup>2 - 2\<close>. \<open>Object.entries\<close> lists the array-index keys first, in ascending numeric
  order, and the other keys after them in creation order.
\<close>

definition isArrayIndex :: "string \<Rightarrow> bool" where
  "isArrayIndex k =
     (k \<noteq> [] \<and> list_all isDigit k \<and> (k = ''0'' \<or> hd k \<noteq> CHR ''0'') \<and> readNat k \<le> 4294967294)"

definition Object_entries :: "'v obj \<Rightarrow> (string \<times> 'v) list" where
  "Object_entries obj =
     sort_key (\<lambda>p. readNat (fst p)) (filter (\<lambda>p. isArrayIndex (fst p)) obj)
     @ filter (\<lambda>p. \<not> isArrayIndex (fst p)) obj"

text \<open>The same order, for the keys alone: \<open>Object.keys\<close> of an object whose keys were created in the order \<open>ks\<close>.\<close>

definition Object_keys :: "string list \<Rightarrow> string list" where
  "Object_keys ks = sort_key readNat (filter isArrayIndex ks) @ filter (\<lambda>k. \<not> isArrayIndex k) ks"

text \<open>
  \<open>new Set()\<close> of strings: the members in insertion order; \<open>add\<close> of a member changes
  nothing; \<open>size\<close> is the length.
\<close>

type_synonym jsset = "string list"

definition setAdd :: "jsset \<Rightarrow> string \<Rightarrow> jsset" where
  "setAdd s x = (if x \<in> set s then s else s @ [x])"

definition setHas :: "jsset \<Rightarrow> string \<Rightarrow> bool" where
  "setHas s x = (x \<in> set s)"

text \<open>\<open>new Set(xs)\<close>: the distinct elements of \<open>xs\<close>, each at its first appearance.\<close>

definition newSet :: "string list \<Rightarrow> jsset" where
  "newSet xs = foldl setAdd [] xs"

subsection \<open>Dates\<close>

text \<open>
  A \<open>Date\<close> is the time value it holds, in milliseconds since 1970-01-01T00:00:00Z. Days are
  numbered from 1970-01-01. The calendar functions are those of the language definition
  (ECMAScript, "Time Values and Time Range" and the sections after it): \<open>DayFromYear y\<close>
  is the day on which year \<open>y\<close> begins, \<open>YearFromDay\<close> the largest year that begins at or
  before a day, found here by counting up from an estimate that is never too large.
\<close>

definition msPerDay :: int where
  "msPerDay = 86400000"

definition DaysInYear :: "int \<Rightarrow> int" where
  "DaysInYear y =
     (if y mod 4 \<noteq> 0 then 365 else if y mod 100 \<noteq> 0 then 366
      else if y mod 400 \<noteq> 0 then 365 else 366)"

definition DayFromYear :: "int \<Rightarrow> int" where
  "DayFromYear y = 365 * (y - 1970) + (y - 1969) div 4 - (y - 1901) div 100 + (y - 1601) div 400"

lemma div_step:
  fixes a n :: int
  assumes "1 < n"
  shows "(a + 1) div n = a div n + (if (a + 1) mod n = 0 then 1 else 0)"
proof -
  have split: "(a + 1) div n = a div n + 1 div n + (a mod n + 1 mod n) div n"
    by (rule div_add1_eq)
  have one: "1 div n = 0" "1 mod n = 1"
    using assms by simp_all
  have lo: "0 \<le> a mod n" and hi: "a mod n < n"
    using assms by simp_all
  show ?thesis
  proof (cases "a mod n + 1 = n")
    case True
    then have "(a mod n + 1) mod n = 0" by simp
    then have "(a + 1) mod n = 0"
      using one by (metis mod_add_left_eq)
    with split one True assms show ?thesis by simp
  next
    case False
    with hi have small: "a mod n + 1 < n" by simp
    then have "(a mod n + 1) mod n = a mod n + 1"
      using lo by simp
    then have "(a + 1) mod n = a mod n + 1"
      by (metis mod_add_left_eq)
    with lo have "(a + 1) mod n \<noteq> 0" by simp
    moreover have "(a mod n + 1) div n = 0"
      using lo small by simp
    ultimately show ?thesis
      using split one by simp
  qed
qed

lemma mod_shift:
  "(y - 1968) mod 4 = 0 \<longleftrightarrow> y mod 4 = (0::int)"
  "(y - 1900) mod 100 = 0 \<longleftrightarrow> y mod 100 = (0::int)"
  "(y - 1600) mod 400 = 0 \<longleftrightarrow> y mod 400 = (0::int)"
  using mod_mult_self1 [of y "- 492" 4] mod_mult_self1 [of y "- 19" 100]
    mod_mult_self1 [of y "- 4" 400]
  by simp_all

lemma leap_nesting:
  "y mod 100 = 0 \<Longrightarrow> y mod 4 = (0::int)"
  "y mod 400 = 0 \<Longrightarrow> y mod 100 = (0::int)"
  using mod_mod_cancel [of 4 100 y] mod_mod_cancel [of 100 400 y]
  by simp_all

lemma DayFromYear_Suc: "DayFromYear (y + 1) = DayFromYear y + DaysInYear y"
proof -
  have a: "(y + 1 - 1969) div 4 = (y - 1969) div 4 + (if y mod 4 = 0 then 1 else 0)"
    using div_step [of 4 "y - 1969"] mod_shift(1) [of y] by (simp add: algebra_simps)
  have b: "(y + 1 - 1901) div 100 = (y - 1901) div 100 + (if y mod 100 = 0 then 1 else 0)"
    using div_step [of 100 "y - 1901"] mod_shift(2) [of y] by (simp add: algebra_simps)
  have c: "(y + 1 - 1601) div 400 = (y - 1601) div 400 + (if y mod 400 = 0 then 1 else 0)"
    using div_step [of 400 "y - 1601"] mod_shift(3) [of y] by (simp add: algebra_simps)
  show ?thesis
    unfolding DayFromYear_def DaysInYear_def a b c
    using leap_nesting [of y] by auto
qed

lemma DaysInYear_bounds: "365 \<le> DaysInYear y" "DaysInYear y \<le> 366"
  by (simp_all add: DaysInYear_def)

function yearSearch :: "int \<Rightarrow> int \<Rightarrow> int" where
  "yearSearch y day = (if DayFromYear (y + 1) \<le> day then yearSearch (y + 1) day else y)"
  by pat_completeness auto
termination
proof (relation "measure (\<lambda>(y, day). nat (day - DayFromYear (y + 1) + 1))")
  show "wf (measure (\<lambda>(y, day). nat (day - DayFromYear (y + 1) + 1)))"
    by simp
  show "((y + 1, day), (y, day)) \<in> measure (\<lambda>(y, day). nat (day - DayFromYear (y + 1) + 1))"
    if "DayFromYear (y + 1) \<le> day" for y day
    using that DayFromYear_Suc [of "y + 1"] DaysInYear_bounds(1) [of "y + 1"]
    by simp
qed

declare yearSearch.simps [simp del]

definition YearFromDay :: "int \<Rightarrow> int" where
  "YearFromDay day = yearSearch (1970 + (if 0 \<le> day then day div 366 else day div 365)) day"

definition InLeapYear :: "int \<Rightarrow> int" where
  "InLeapYear y = (if DaysInYear y = 366 then 1 else 0)"

definition DayWithinYear :: "int \<Rightarrow> int" where
  "DayWithinYear day = day - DayFromYear (YearFromDay day)"

text \<open>The day of the year on which month \<open>m\<close> (0 for January) begins; 12 is the year's end.\<close>

definition monthStart :: "int \<Rightarrow> int \<Rightarrow> int" where
  "monthStart leap m =
     (if m = 0 then 0 else if m = 1 then 31 else if m = 2 then 59 + leap
      else if m = 3 then 90 + leap else if m = 4 then 120 + leap else if m = 5 then 151 + leap
      else if m = 6 then 181 + leap else if m = 7 then 212 + leap else if m = 8 then 243 + leap
      else if m = 9 then 273 + leap else if m = 10 then 304 + leap else if m = 11 then 334 + leap
      else 365 + leap)"

definition MonthFromDay :: "int \<Rightarrow> int" where
  "MonthFromDay day =
     (let d = DayWithinYear day;
          leap = InLeapYear (YearFromDay day)
      in if d < 31 then 0 else if d < 59 + leap then 1 else if d < 90 + leap then 2
         else if d < 120 + leap then 3 else if d < 151 + leap then 4 else if d < 181 + leap then 5
         else if d < 212 + leap then 6 else if d < 243 + leap then 7 else if d < 273 + leap then 8
         else if d < 304 + leap then 9 else if d < 334 + leap then 10 else 11)"

definition DateFromDay :: "int \<Rightarrow> int" where
  "DateFromDay day =
     DayWithinYear day - monthStart (InLeapYear (YearFromDay day)) (MonthFromDay day) + 1"

text \<open>\<open>MakeDay\<close>: the day number of a date given by year, month index and day of the month.\<close>

definition MakeDay :: "int \<Rightarrow> int \<Rightarrow> int \<Rightarrow> int" where
  "MakeDay year month date =
     (let ym = year + month div 12;
          mn = month mod 12
      in DayFromYear ym + monthStart (InLeapYear ym) mn + date - 1)"

definition daysInMonth :: "int \<Rightarrow> int \<Rightarrow> int" where
  "daysInMonth y m = monthStart (InLeapYear y) (m + 1) - monthStart (InLeapYear y) m"

text \<open>
  \<open>d.toISOString()\<close>: the UTC fields, the year with four digits from 0 to 9999 and with a
  sign and six digits otherwise.
\<close>

definition isoYear :: "int \<Rightarrow> string" where
  "isoYear y =
     (if 0 \<le> y \<and> y \<le> 9999 then padStart 4 CHR ''0'' (showNat y)
      else (if y < 0 then CHR ''-'' else CHR ''+'') # padStart 6 CHR ''0'' (showNat \<bar>y\<bar>))"

definition pad2 :: "int \<Rightarrow> string" where
  "pad2 n = padStart 2 CHR ''0'' (showInt n)"

definition toISOString :: "int \<Rightarrow> string" where
  "toISOString t =
     (let day = t div msPerDay;
          r = t mod msPerDay
      in isoYear (YearFromDay day) @ ''-'' @ pad2 (MonthFromDay day + 1) @ ''-''
         @ pad2 (DateFromDay day) @ ''T''
         @ pad2 (r div 3600000) @ '':'' @ pad2 (r mod 3600000 div 60000) @ '':''
         @ pad2 (r mod 60000 div 1000) @ ''.'' @ padStart 3 CHR ''0'' (showInt (r mod 1000)) @ ''Z'')"

text \<open>
  \<open>new Date(s)\<close> for a date-only ISO text \<open>YYYY-MM-DD\<close>, \<open>+YYYYYY-MM-DD\<close> or
  \<open>-YYYYYY-MM-DD\<close>: midnight UTC of that day. What other texts give is left to the
  implementation by the language; they are an invalid date (\<open>NaN\<close>) here.
\<close>

definition isDigits :: "nat \<Rightarrow> string \<Rightarrow> bool" where
  "isDigits n s = (length s = n \<and> list_all isDigit s)"

definition Date_parse :: "string \<Rightarrow> jsnum" where
  "Date_parse s =
     (let signed = (s \<noteq> [] \<and> (hd s = CHR ''+'' \<or> hd s = CHR ''-''));
          neg = (s \<noteq> [] \<and> hd s = CHR ''-'')
      in case splitOn CHR ''-'' (if signed then tl s else s) of
           [ys, ms, ds] \<Rightarrow>
             (let y = (if neg then - readNat ys else readNat ys);
                  m = readNat ms;
                  d = readNat ds
              in if isDigits (if signed then 6 else 4) ys \<and> isDigits 2 ms \<and> isDigits 2 ds
                    \<and> \<not> (neg \<and> readNat ys = 0)
                    \<and> 1 \<le> m \<and> m \<le> 12 \<and> 1 \<le> d \<and> d \<le> daysInMonth y (m - 1)
                 then Num (of_int (MakeDay y (m - 1) d * msPerDay))
                 else NaN)
         | _ \<Rightarrow> NaN)"

text \<open>
  Local time. The language leaves to the host which local time belongs to an instant and
  which instant to a local time: \<open>LocalTime z t\<close> is the local time value of the instant
  \<open>t\<close>, and \<open>UTC z t\<close> the instant of the local time value \<open>t\<close>, in the time zone \<open>z\<close>
  of the host. Under daylight saving the two are not one fixed shift. \<open>localDay z t\<close> is
  the day whose year, month and day of the month \<open>getFullYear\<close>, \<open>getMonth\<close> and \<open>getDate\<close>
  return for the time value \<open>t\<close>.
\<close>

record zone =
  LocalTime :: "int \<Rightarrow> int"
  UTC :: "int \<Rightarrow> int"

text \<open>A zone that is always \<open>shift\<close> milliseconds ahead of UTC.\<close>

definition fixedOffset :: "int \<Rightarrow> zone" where
  "fixedOffset shift = \<lparr>LocalTime = (\<lambda>t. t + shift), UTC = (\<lambda>t. t - shift)\<rparr>"

definition localDay :: "zone \<Rightarrow> int \<Rightarrow> int" where
  "localDay z t = LocalTime z t div msPerDay"

text \<open>\<open>ToIntegerOrInfinity\<close> of a finite number: the fraction is dropped.\<close>

definition truncate_js :: "rat \<Rightarrow> int" where
  "truncate_js q = (if 0 \<le> q then \<lfloor>q\<rfloor> else \<lceil>q\<rceil>)"

text \<open>\<open>TimeClip\<close>: a time value more than 100,000,000 days from 1970 is no time value.\<close>

definition TimeClip :: "int \<Rightarrow> jsnum" where
  "TimeClip t = (if \<bar>t\<bar> \<le> 8640000000000000 then Num (of_int t) else NaN)"

text \<open>
  \<open>new Date(year, month, date, hours, minutes, seconds, ms)\<close>: the time value of the new
  Date, \<open>NaN\<close> for an Invalid Date. The fields are read in local time, and a year from 0
  to 99 stands for the year 1900 to 1999. The last four arguments are integer literals
  at both places where the code calls it.
\<close>

definition Date_new :: "zone \<Rightarrow> jsnum \<Rightarrow> jsnum \<Rightarrow> jsnum \<Rightarrow> int \<Rightarrow> int \<Rightarrow> int \<Rightarrow> int \<Rightarrow> jsnum" where
  "Date_new z year month date hours minutes seconds ms =
     (case (year, month, date) of
        (Num y, Num m, Num dt) \<Rightarrow>
          (let yi = truncate_js y;
               yr = (if 0 \<le> yi \<and> yi \<le> 99 then 1900 + yi else yi);
               day = MakeDay yr (truncate_js m) (truncate_js dt);
               time = hours * 3600000 + minutes * 60000 + seconds * 1000 + ms
           in TimeClip (UTC z (day * msPerDay + time)))
      | _ \<Rightarrow> NaN)"

section \<open>Rows\<close>

text \<open>
  A row is one clinic visit, with the ten columns of \<open>COLUMNS\<close> (config.js), typed as
  \<open>DataLoader.processData\<close> leaves them: the appointment date is a valid \<open>Date\<close> or
  \<open>null\<close> (an unparseable date has become \<open>null\<close>; \<open>None\<close> also stands for the other
  values that are no \<open>Date\<close> and are falsy), the employee number is a string (empty when
  the cell was empty), the age is a number or \<open>null\<close>/\<open>undefined\<close> (\<open>None\<close>), and the
  other columns are cells as parsed.
\<close>

record row =
  DATE :: "int option"
  PURPOSE :: cell
  EMPLOYEE :: string
  SEX :: cell
  COMPANY :: cell
  MONTH :: cell
  AGE :: "jsnum option"
  FINDINGS :: cell
  ICD :: cell
  LABEL :: cell

definition AGE_BRACKETS :: "string list" where
  "AGE_BRACKETS =
     [''<18'', ''18-24'', ''25-34'', ''35-44'', ''45-54'', ''55-64'', ''65-74'', ''75-84'',
      ''85+'', ''Unknown'']"

section \<open>Filters\<close>

text \<open>
  \<open>Filters.state\<close> and \<open>Filters.originalRanges\<close>. A \<open>Date\<close> held in the state is its
  time value, \<open>NaN\<close> for an Invalid Date; \<open>None\<close> is \<open>null\<close>.
\<close>

record filter_state =
  companies :: "string list"
  purposes :: "string list"
  months :: "string list"
  sexes :: "string list"
  labels :: "string list"
  findings :: "string list"
  dateStart :: "jsnum option"
  dateEnd :: "jsnum option"
  ageMin :: jsnum
  ageMax :: jsnum

record original_ranges =
  orig_dateMin :: "string option"
  orig_dateMax :: "string option"
  orig_ageMin :: int
  orig_ageMax :: int

record filters =
  state :: filter_state
  originalRanges :: original_ranges


text \<open>
  The part of the page that \<open>Filters\<close> reads and writes. A searchable select is the list
  \<open>SearchableSelect.getSelected\<close> returns for it (empty when it was never created). Each
  of the other four elements is \<open>None\<close> when \<open>document.getElementById\<close> finds no such
  element, and otherwise the text that its \<open>value\<close> returns.
\<close>

record dom =
  companyFilter :: "string list"
  purposeFilter :: "string list"
  monthFilter :: "string list"
  sexFilter :: "string list"
  labelFilter :: "string list"
  findingsFilter :: "string list"
  dateStartInput :: "string option"
  dateEndInput :: "string option"
  ageMinSlider :: "string option"
  ageMaxSlider :: "string option"











text \<open>
  \<open>readFilterState\<close>. The value of a date input is split at its hyphens, the parts are
  made numbers, and \<open>new Date\<close> builds the first instant of the start day and the last
  millisecond of the end day from them, in local time.
\<close>

definition readFilterState :: "zone \<Rightarrow> dom \<Rightarrow> filters \<Rightarrow> filters" where
  "readFilterState z d F =
     F\<lparr>state :=
        \<lparr>companies = companyFilter d,
         purposes = purposeFilter d,
         months = monthFilter d,
         sexes = sexFilter d,
         labels = labelFilter d,
         findings = findingsFilter d,
         dateStart = (case dateStartInput d of
                        Some v \<Rightarrow>
                          if v \<noteq> []
                          then (let parts = map Number_js (splitOn CHR ''-'' v);
                                    year = item parts 0;
                                    month = item parts 1;
                                    day = item parts 2
                                in Some (Date_new z year (js_minus month (Num 1)) day 0 0 0 0))
                          else None
                      | None \<Rightarrow> None),
         dateEnd = (case dateEndInput d of
                      Some v \<Rightarrow>
                        if v \<noteq> []
                        then (let parts = map Number_js (splitOn CHR ''-'' v);
                                  year = item parts 0;
                                  month = item parts 1;
                                  day = item parts 2
                              in Some (Date_new z year (js_minus month (Num 1)) day 23 59 59 999))
                        else None
                    | None \<Rightarrow> None),
         ageMin = (case ageMinSlider d of Some v \<Rightarrow> parseInt_js v | None \<Rightarrow> Num 0),
         ageMax = (case ageMaxSlider d of Some v \<Rightarrow> parseInt_js v | None \<Rightarrow> Num 100)\<rparr>\<rparr>"

text \<open>The callback of \<open>data.filter\<close> in \<open>applyFilters\<close>, test by test.\<close>

definition rowPasses :: "filter_state \<Rightarrow> row \<Rightarrow> bool" where
  "rowPasses st row =
     (if companies st \<noteq> [] \<and> String_js (COMPANY row) \<notin> set (companies st) then False
      else if purposes st \<noteq> [] \<and> String_js (PURPOSE row) \<notin> set (purposes st) then False
      else if months st \<noteq> [] \<and> String_js (MONTH row) \<notin> set (months st) then False
      else if sexes st \<noteq> [] \<and> String_js (SEX row) \<notin> set (sexes st) then False
      else if labels st \<noteq> [] \<and> String_js (LABEL row) \<notin> set (labels st) then False
      else if findings st \<noteq> [] \<and> String_js (FINDINGS row) \<notin> set (findings st) then False
      else if (case (dateStart st, dateEnd st) of
                 (Some s, Some e) \<Rightarrow>
                   (case DATE row of
                      Some rowDate \<Rightarrow>
                        js_less (Num (of_int rowDate)) s \<or> js_greater (Num (of_int rowDate)) e
                    | None \<Rightarrow> False)
               | _ \<Rightarrow> False) then False
      else if (case AGE row of
                 Some age \<Rightarrow> \<not> isNaN age \<and> (js_less age (ageMin st) \<or> js_greater age (ageMax st))
               | None \<Rightarrow> False) then False
      else True)"

definition applyFilters :: "zone \<Rightarrow> dom \<Rightarrow> filters \<Rightarrow> row list \<Rightarrow> filters \<times> row list" where
  "applyFilters z d F data =
     (let F1 = readFilterState z d F
      in (F1, filter (rowPasses (state F1)) data))"

section \<open>DataProcessor\<close>

definition formatDateKey :: "int \<Rightarrow> string" where
  "formatDateKey date = hd (splitOn CHR ''T'' (toISOString date))"

definition formatMonthKey :: "zone \<Rightarrow> int \<Rightarrow> string" where
  "formatMonthKey z date =
     (let year = YearFromDay (localDay z date);
          month = padStart 2 CHR ''0'' (showInt (MonthFromDay (localDay z date) + 1))
      in showInt year @ ''-'' @ month)"

text \<open>
  The block that \<open>getPatientsPerDay\<close>, \<open>getPatientsPerMonth\<close> and \<open>getSexDistribution\<close>
  each run for a row once its group key is known: create the group's Set when the key is
  new, then add the employee number when it is not empty.
\<close>

definition addPatient :: "jsset obj \<Rightarrow> string \<Rightarrow> string \<Rightarrow> jsset obj" where
  "addPatient grouped key employee =
     (let grouped1 = (case objGet grouped key of None \<Rightarrow> objSet grouped key [] | Some _ \<Rightarrow> grouped)
      in if employee \<noteq> []
         then (case objGet grouped1 key of
                 Some patients \<Rightarrow> objSet grouped1 key (setAdd patients employee)
               | None \<Rightarrow> grouped1)
         else grouped1)"

definition getPatientsPerDay :: "row list \<Rightarrow> (string \<times> nat) list" where
  "getPatientsPerDay data =
     (let grouped = foldl (\<lambda>grouped row.
                       case DATE row of
                         None \<Rightarrow> grouped
                       | Some date \<Rightarrow> addPatient grouped (formatDateKey date) (EMPLOYEE row))
                     [] data
      in sortBy (\<lambda>a b. js_minus (Date_parse (fst a)) (Date_parse (fst b)))
           (map (\<lambda>(date, patients). (date, length patients)) (Object_entries grouped)))"

definition getPatientsPerMonth :: "zone \<Rightarrow> row list \<Rightarrow> (string \<times> nat) list" where
  "getPatientsPerMonth z data =
     (let grouped = foldl (\<lambda>grouped row.
                       case DATE row of
                         None \<Rightarrow> grouped
                       | Some date \<Rightarrow> addPatient grouped (formatMonthKey z date) (EMPLOYEE row))
                     [] data
      in sortBy (\<lambda>a b. js_minus (Date_parse (fst a @ ''-01'')) (Date_parse (fst b @ ''-01'')))
           (map (\<lambda>(month, patients). (month, length patients)) (Object_entries grouped)))"

text \<open>\<open>v || 0\<close> for a count read from an object.\<close>

definition orZero :: "nat option \<Rightarrow> nat" where
  "orZero v = (case v of None \<Rightarrow> 0 | Some c \<Rightarrow> c)"

text \<open>The statement \<open>counts[k] = (counts[k] || 0) + 1\<close>.\<close>

definition increment :: "nat obj \<Rightarrow> string \<Rightarrow> nat obj" where
  "increment counts k = objSet counts k (orZero (objGet counts k) + 1)"

text \<open>
  \<open>getTopFindings\<close> and \<open>getSexDistribution\<close> take their keys from cells of the file, so
  a key can be a property name of \<open>Object.prototype\<close>. The two ways in which such a key
  ends the modelled run of a loop:
  \<^item> \<open>TypeError\<close>: \<open>grouped[sex]\<close> is an inherited function, \<open>new Set()\<close> is not
    stored because the function is truthy, and \<open>grouped[sex].add\<close> is not a function;
  \<^item> \<open>StringCount\<close>: \<open>counts[finding] || 0\<close> is an inherited function and \<open>+ 1\<close>
    makes a string of it. The function goes on and returns, with a string where a count
    should be; what it returns then is not modelled.
\<close>

datatype failure = TypeError | StringCount

text \<open>\<open>xs.forEach\<close> with a callback that updates an accumulator and can fail.\<close>

fun forEach :: "('s \<Rightarrow> 'a \<Rightarrow> failure + 's) \<Rightarrow> 's \<Rightarrow> 'a list \<Rightarrow> failure + 's" where
  "forEach step s [] = Inr s"
| "forEach step s (x # xs) = (case step s x of Inl e \<Rightarrow> Inl e | Inr s1 \<Rightarrow> forEach step s1 xs)"

definition getTopFindings :: "row list \<Rightarrow> nat \<Rightarrow> failure + (string \<times> nat) list" where
  "getTopFindings data topN =
     (case forEach (\<lambda>counts row.
                      let finding = FINDINGS row
                      in if truthy finding
                         then (if inherited (String_js finding) then Inl StringCount
                               else Inr (increment counts (String_js finding)))
                         else Inr counts)
                   [] data of
        Inl e \<Rightarrow> Inl e
      | Inr counts \<Rightarrow>
          Inr (take topN
                 (sortBy (\<lambda>a b. Num (of_nat (snd b) - of_nat (snd a))) (Object_entries counts))))"

definition getSexDistribution :: "row list \<Rightarrow> failure + (string \<times> nat) list" where
  "getSexDistribution data =
     (case forEach (\<lambda>grouped row.
                      let sex = (if truthy (SEX row) then String_js (SEX row) else ''Unknown'')
                      in if inherited sex
                         then (if EMPLOYEE row \<noteq> [] then Inl TypeError else Inr grouped)
                         else Inr (addPatient grouped sex (EMPLOYEE row)))
                   [] data of
        Inl e \<Rightarrow> Inl e
      | Inr grouped \<Rightarrow>
          Inr (map (\<lambda>(sex, patients). (sex, length patients)) (Object_entries grouped)))"

definition categorizeAgeBracket :: "jsnum option \<Rightarrow> string" where
  "categorizeAgeBracket a =
     (case a of
        None \<Rightarrow> ''Unknown''
      | Some NaN \<Rightarrow> ''Unknown''
      | Some (Num q) \<Rightarrow>
          (let age = \<lfloor>q\<rfloor>
           in if age < 18 then ''<18''
              else if age \<le> 24 then ''18-24''
              else if age \<le> 34 then ''25-34''
              else if age \<le> 44 then ''35-44''
              else if age \<le> 54 then ''45-54''
              else if age \<le> 64 then ''55-64''
              else if age \<le> 74 then ''65-74''
              else if age \<le> 84 then ''75-84''
              else ''85+''))"

definition getAgeBracketDistribution :: "row list \<Rightarrow> (string \<times> nat) list" where
  "getAgeBracketDistribution data =
     (let (grouped, seen) =
            foldl (\<lambda>(grouped, seen) row.
                     let employee = EMPLOYEE row
                     in if employee = [] \<or> setHas seen employee then (grouped, seen)
                        else
                          let seen1 = setAdd seen employee;
                              bracket = categorizeAgeBracket (AGE row)
                          in (increment grouped bracket, seen1))
                  ([], []) data
      in map (\<lambda>bracket. (bracket, orZero (objGet grouped bracket)))
           (filter (\<lambda>bracket. orZero (objGet grouped bracket) \<noteq> 0) AGE_BRACKETS))"

definition getAgeDistribution :: "row list \<Rightarrow> jsnum list" where
  "getAgeDistribution data =
     snd (foldl (\<lambda>(seen, ages) row.
                   let employee = EMPLOYEE row
                   in if employee = [] \<or> setHas seen employee then (seen, ages)
                      else
                        let seen1 = setAdd seen employee
                        in (case AGE row of
                              Some age \<Rightarrow> if \<not> isNaN age then (seen1, ages @ [age]) else (seen1, ages)
                            | None \<Rightarrow> (seen1, ages)))
                ([], []) data)"

section \<open>DataLoader and the upload handler of App\<close>







section \<open>Sample data\<close>

text \<open>
  The three visits of the specification's scenario: two findings of employee E1 on
  2024-01-05 and one of employee E2 on 2024-02-10. The dates are the instants that
  \<open>new Date('2024-01-05')\<close> and \<open>new Date('2024-02-10')\<close> give (midnight UTC); the columns
  the scenario does not mention are absent.
\<close>

definition scenario :: "row list" where
  "scenario =
     [\<lparr>DATE = Some 1704412800000, PURPOSE = CUndefined, EMPLOYEE = ''E1'', SEX = CUndefined,
       COMPANY = CStr ''A'', MONTH = CUndefined, AGE = Some (Num 30), FINDINGS = CStr ''F1'',
       ICD = CUndefined, LABEL = CUndefined\<rparr>,
      \<lparr>DATE = Some 1704412800000, PURPOSE = CUndefined, EMPLOYEE = ''E1'', SEX = CUndefined,
       COMPANY = CStr ''A'', MONTH = CUndefined, AGE = Some (Num 30), FINDINGS = CStr ''F2'',
       ICD = CUndefined, LABEL = CUndefined\<rparr>,
      \<lparr>DATE = Some 1707523200000, PURPOSE = CUndefined, EMPLOYEE = ''E2'', SEX = CUndefined,
       COMPANY = CStr ''B'', MONTH = CUndefined, AGE = Some (Num 70), FINDINGS = CStr ''F1'',
       ICD = CUndefined, LABEL = CUndefined\<rparr>]"


text \<open>A row with nothing in it, from which the examples below are made.\<close>

definition blank :: row where
  "blank =
     \<lparr>DATE = None, PURPOSE = CNull, EMPLOYEE = [], SEX = CNull, COMPANY = CNull, MONTH = CNull,
      AGE = None, FINDINGS = CNull, ICD = CNull, LABEL = CNull\<rparr>"








text \<open>
  Two findings with one record each, a word first and a number second; three patients, one
  male first and two female; and two visits on different days, the first without an
  employee number.
\<close>

definition tieExample :: "row list" where
  "tieExample =
     [\<lparr>DATE = None, PURPOSE = CNull, EMPLOYEE = ''E1'', SEX = CNull, COMPANY = CNull, MONTH = CNull,
       AGE = None, FINDINGS = CStr ''Hypertension'', ICD = CNull, LABEL = CNull\<rparr>,
      \<lparr>DATE = None, PURPOSE = CNull, EMPLOYEE = ''E2'', SEX = CNull, COMPANY = CNull, MONTH = CNull,
       AGE = None, FINDINGS = CNum 401, ICD = CNull, LABEL = CNull\<rparr>]"

definition sexExample :: "row list" where
  "sexExample =
     [\<lparr>DATE = None, PURPOSE = CNull, EMPLOYEE = ''E1'', SEX = CStr ''M'', COMPANY = CNull, MONTH = CNull,
       AGE = None, FINDINGS = CNull, ICD = CNull, LABEL = CNull\<rparr>,
      \<lparr>DATE = None, PURPOSE = CNull, EMPLOYEE = ''E2'', SEX = CStr ''F'', COMPANY = CNull, MONTH = CNull,
       AGE = None, FINDINGS = CNull, ICD = CNull, LABEL = CNull\<rparr>,
      \<lparr>DATE = None, PURPOSE = CNull, EMPLOYEE = ''E3'', SEX = CStr ''F'', COMPANY = CNull, MONTH = CNull,
       AGE = None, FINDINGS = CNull, ICD = CNull, LABEL = CNull\<rparr>]"

text \<open>
  Findings and sexes that are not texts of the usual kind: the number 0, and the word
  \<open>constructor\<close>.
\<close>

definition zeroFindingExample :: "row list" where
  "zeroFindingExample =
     [blank\<lparr>EMPLOYEE := ''E1'', SEX := CNum 0, FINDINGS := CNum 0\<rparr>,
      blank\<lparr>EMPLOYEE := ''E2'', SEX := CStr ''F'', FINDINGS := CStr ''Asthma''\<rparr>]"

definition constructorExample :: "row list" where
  "constructorExample =
     [blank\<lparr>EMPLOYEE := ''E1'', SEX := CStr ''constructor'', FINDINGS := CStr ''constructor''\<rparr>]"




definition emptyDayExample :: "row list" where
  "emptyDayExample =
     [\<lparr>DATE = Some 1704412800000, PURPOSE = CNull, EMPLOYEE = [], SEX = CNull, COMPANY = CNull,
       MONTH = CNull, AGE = None, FINDINGS = CStr ''F1'', ICD = CNull, LABEL = CNull\<rparr>,
      \<lparr>DATE = Some 1707523200000, PURPOSE = CNull, EMPLOYEE = ''E2'', SEX = CNull, COMPANY = CNull,
       MONTH = CNull, AGE = None, FINDINGS = CStr ''F1'', ICD = CNull, LABEL = CNull\<rparr>]"

section \<open>Auxiliary notions\<close>

text \<open>The Set stored under a key of a grouping object, empty when the key is absent.\<close>

definition patientsOf :: "jsset obj \<Rightarrow> string \<Rightarrow> jsset" where
  "patientsOf grouped k = (case objGet grouped k of None \<Rightarrow> [] | Some patients \<Rightarrow> patients)"

text \<open>
  The rows at which the loops of \<open>getAgeBracketDistribution\<close> and \<open>getAgeDistribution\<close> do
  not return early: the first row of every non-empty employee number not yet in \<open>seen\<close>.
\<close>

fun firstRows :: "jsset \<Rightarrow> row list \<Rightarrow> row list" where
  "firstRows seen [] = []"
| "firstRows seen (row # rows) =
     (if EMPLOYEE row = [] \<or> EMPLOYEE row \<in> set seen then firstRows seen rows
      else row # firstRows (setAdd seen (EMPLOYEE row)) rows)"

text \<open>
  The ranking of findings in the words of claim C4: one pair for each distinct text of a
  finding that is not missing or empty, in the order of first appearance, with the number
  of records that hold it; the pairs sorted by descending count by a stable sort; the first
  \<open>topN\<close> of them.
\<close>

definition present :: "cell \<Rightarrow> bool" where
  "present v = (v \<noteq> CNull \<and> v \<noteq> CUndefined \<and> v \<noteq> CStr [])"

definition getTopFindings_spec :: "row list \<Rightarrow> nat \<Rightarrow> (string \<times> nat) list" where
  "getTopFindings_spec data topN =
     (let keys = map String_js (filter present (map FINDINGS data))
      in take topN (sort_key (\<lambda>p. - int (snd p)) (map (\<lambda>k. (k, count_list keys k)) (newSet keys))))"





section \<open>Properties of the filter engine\<close>

lemma rowPasses_iff:
  "rowPasses st row \<longleftrightarrow>
     (companies st = [] \<or> String_js (COMPANY row) \<in> set (companies st))
     \<and> (purposes st = [] \<or> String_js (PURPOSE row) \<in> set (purposes st))
     \<and> (months st = [] \<or> String_js (MONTH row) \<in> set (months st))
     \<and> (sexes st = [] \<or> String_js (SEX row) \<in> set (sexes st))
     \<and> (labels st = [] \<or> String_js (LABEL row) \<in> set (labels st))
     \<and> (findings st = [] \<or> String_js (FINDINGS row) \<in> set (findings st))
     \<and> (case (dateStart st, dateEnd st, DATE row) of
            (Some s, Some e, Some t) \<Rightarrow>
              \<not> js_less (Num (of_int t)) s \<and> \<not> js_greater (Num (of_int t)) e
          | _ \<Rightarrow> True)
     \<and> (case AGE row of
            Some (Num a) \<Rightarrow> \<not> js_less (Num a) (ageMin st) \<and> \<not> js_greater (Num a) (ageMax st)
          | _ \<Rightarrow> True)"
  unfolding rowPasses_def
  by (auto split: option.splits jsnum.splits)

text \<open>
  Claim C1. \<open>applyFilters\<close> reads the six accepted-value lists from the page and returns
  exactly the rows of the input, in their order, that satisfy all of: for each of company,
  purpose, month, sex, label and finding, the accepted list is empty or holds the row's
  value coerced to a string; the date condition (when both bounds are set, a row that has
  a date is neither before the start nor after the end); the age condition. So every row
  of the output has each constrained field in its accepted list, every input row that
  meets all the conditions is in the output, and an empty list constrains nothing.
\<close>

theorem applyFilters_accepted_values:
  "(let (F1, out) = applyFilters z d F data; st = state F1
    in companies st = companyFilter d \<and> purposes st = purposeFilter d
       \<and> months st = monthFilter d \<and> sexes st = sexFilter d
       \<and> labels st = labelFilter d \<and> findings st = findingsFilter d
       \<and> out = filter (\<lambda>row.
             (companies st = [] \<or> String_js (COMPANY row) \<in> set (companies st))
           \<and> (purposes st = [] \<or> String_js (PURPOSE row) \<in> set (purposes st))
           \<and> (months st = [] \<or> String_js (MONTH row) \<in> set (months st))
           \<and> (sexes st = [] \<or> String_js (SEX row) \<in> set (sexes st))
           \<and> (labels st = [] \<or> String_js (LABEL row) \<in> set (labels st))
           \<and> (findings st = [] \<or> String_js (FINDINGS row) \<in> set (findings st))
           \<and> (case (dateStart st, dateEnd st, DATE row) of
                  (Some s, Some e, Some t) \<Rightarrow>
                    \<not> js_less (Num (of_int t)) s \<and> \<not> js_greater (Num (of_int t)) e
                | _ \<Rightarrow> True)
           \<and> (case AGE row of
                  Some (Num a) \<Rightarrow> \<not> js_less (Num a) (ageMin st) \<and> \<not> js_greater (Num a) (ageMax st)
                | _ \<Rightarrow> True)) data)"
  unfolding applyFilters_def Let_def split_def fst_conv snd_conv rowPasses_iff [abs_def]
  by (simp add: readFilterState_def)

subsection \<open>The calendar\<close>













subsection \<open>Decimal texts\<close>





















subsection \<open>The text of a date input\<close>

















subsection \<open>The page after loading\<close>


























section \<open>Properties of the aggregator\<close>

subsection \<open>Sets and objects\<close>

lemma set_setAdd: "set (setAdd s x) = insert x (set s)"
  by (auto simp: setAdd_def)

lemma distinct_setAdd: "distinct s \<Longrightarrow> distinct (setAdd s x)"
  by (simp add: setAdd_def)

lemma foldl_setAdd_set: "set (foldl setAdd s xs) = set s \<union> set xs"
  by (induction xs arbitrary: s) (auto simp: set_setAdd)

lemma foldl_setAdd_distinct: "distinct s \<Longrightarrow> distinct (foldl setAdd s xs)"
  by (induction xs arbitrary: s) (auto simp: distinct_setAdd)

lemma set_newSet: "set (newSet xs) = set xs"
  by (simp add: newSet_def foldl_setAdd_set)

lemma distinct_newSet: "distinct (newSet xs)"
  by (simp add: newSet_def foldl_setAdd_distinct)

lemma length_newSet: "length (newSet xs) = card (set xs)"
  using distinct_card [OF distinct_newSet, of xs] by (simp add: set_newSet)

lemma newSet_snoc: "newSet (xs @ [x]) = setAdd (newSet xs) x"
  by (simp add: newSet_def)

lemma foldl_setAdd_append: "foldl setAdd s xs = s @ filter (\<lambda>x. x \<notin> set s) (newSet xs)"
proof (induction xs rule: rev_induct)
  case Nil
  then show ?case by (simp add: newSet_def)
next
  case (snoc x xs)
  have "foldl setAdd s (xs @ [x]) = setAdd (s @ filter (\<lambda>x. x \<notin> set s) (newSet xs)) x"
    by (simp add: snoc)
  also have "\<dots> = s @ filter (\<lambda>x. x \<notin> set s) (setAdd (newSet xs) x)"
    by (simp add: setAdd_def set_newSet)
  finally show ?case
    by (simp add: newSet_snoc)
qed

text \<open>The members of \<open>new Set(xs)\<close> stand in the order of their first appearance in \<open>xs\<close>.\<close>

lemma newSet_Cons: "newSet (x # xs) = x # filter (\<lambda>y. y \<noteq> x) (newSet xs)"
  using foldl_setAdd_append [of "[x]" xs] by (simp add: newSet_def setAdd_def)

lemma map_fst_objSet: "map fst (objSet obj k v) = setAdd (map fst obj) k"
  by (induction obj) (auto simp: setAdd_def)

lemma objGet_objSet: "objGet (objSet obj k v) k' = (if k' = k then Some v else objGet obj k')"
  by (induction obj) (auto simp: objGet_def)

lemma objGet_None_iff: "objGet obj k = None \<longleftrightarrow> k \<notin> set (map fst obj)"
  by (simp add: objGet_def map_of_eq_None_iff)

lemma obj_entries_eq:
  "distinct (map fst obj) \<Longrightarrow> obj = map (\<lambda>k. (k, the (objGet obj k))) (map fst obj)"
proof -
  assume "distinct (map fst obj)"
  then have "(\<lambda>p. (fst p, the (objGet obj (fst p)))) p = p" if "p \<in> set obj" for p
    using that by (cases p) (simp add: objGet_def)
  then have "map (\<lambda>p. (fst p, the (objGet obj (fst p)))) obj = obj"
    by (intro map_idI) simp
  then show ?thesis
    by (simp add: comp_def)
qed


lemma insort_key_map: "insort_key g (h x) (map h xs) = map h (insort_key (\<lambda>y. g (h y)) x xs)"
  by (induction xs) simp_all

lemma sort_key_map: "sort_key g (map h xs) = map h (sort_key (\<lambda>y. g (h y)) xs)"
  by (induction xs) (simp_all add: insort_key_map)

lemma Object_entries_map:
  "Object_entries (map (\<lambda>k. (k, f k)) ks) = map (\<lambda>k. (k, f k)) (Object_keys ks)"
  by (simp add: Object_entries_def Object_keys_def filter_map comp_def sort_key_map)

lemma set_Object_entries: "set (Object_entries obj) = set obj"
  by (auto simp: Object_entries_def)

lemma set_Object_keys: "set (Object_keys ks) = set ks"
  by (auto simp: Object_keys_def)

lemma distinct_Object_keys: "distinct ks \<Longrightarrow> distinct (Object_keys ks)"
  by (auto simp: Object_keys_def)

lemma Object_keys_no_index: "\<forall>k\<in>set ks. \<not> isArrayIndex k \<Longrightarrow> Object_keys ks = ks"
  by (simp add: Object_keys_def filter_empty_conv[THEN iffD2] filter_id_conv[THEN iffD2])

lemma set_insertBy: "set (insertBy cmp x ys) = insert x (set ys)"
  by (induction ys) auto

lemma set_sortBy: "set (sortBy cmp xs) = set xs"
  by (induction xs) (simp_all add: sortBy_def set_insertBy)

lemma insertBy_count:
  "insertBy (\<lambda>a b. Num (of_nat (snd b) - of_nat (snd a))) x ys = insort_key (\<lambda>p. - int (snd p)) x ys"
  by (induction ys) auto

lemma sortBy_count:
  "sortBy (\<lambda>a b. Num (of_nat (snd b) - of_nat (snd a))) xs = sort_key (\<lambda>p. - int (snd p)) xs"
  unfolding sortBy_def sort_key_def
  by (simp add: insertBy_count [abs_def])

subsection \<open>Counting into an object\<close>

lemma map_fst_increment: "map fst (increment obj k) = setAdd (map fst obj) k"
  by (simp add: increment_def map_fst_objSet)

lemma orZero_increment:
  "orZero (objGet (increment obj k) k') = orZero (objGet obj k') + (if k' = k then 1 else 0)"
  by (simp add: increment_def objGet_objSet orZero_def)

lemma counts_keys: "map fst (foldl increment obj ks) = foldl setAdd (map fst obj) ks"
  by (induction ks arbitrary: obj) (simp_all add: map_fst_increment)

lemma counts_values:
  "orZero (objGet (foldl increment obj ks) k) = orZero (objGet obj k) + count_list ks k"
  by (induction ks arbitrary: obj) (simp_all add: orZero_increment)

lemma orZero_the: "v \<noteq> None \<Longrightarrow> the v = orZero v"
  by (auto simp: orZero_def)

lemma counts_object: "foldl increment [] ks = map (\<lambda>k. (k, count_list ks k)) (newSet ks)"
proof -
  let ?obj = "foldl increment [] ks"
  have keys: "map fst ?obj = newSet ks"
    by (simp add: counts_keys newSet_def)
  have "the (objGet ?obj k) = count_list ks k" if "k \<in> set (newSet ks)" for k
  proof -
    from that keys have "objGet ?obj k \<noteq> None"
      by (simp add: objGet_None_iff)
    then have "the (objGet ?obj k) = orZero (objGet ?obj k)"
      by (rule orZero_the)
    also have "\<dots> = count_list ks k"
      by (simp add: counts_values) (simp add: orZero_def objGet_def)
    finally show ?thesis .
  qed
  then have vals: "map (\<lambda>k. (k, the (objGet ?obj k))) (newSet ks)
      = map (\<lambda>k. (k, count_list ks k)) (newSet ks)"
    by simp
  have "?obj = map (\<lambda>k. (k, the (objGet ?obj k))) (map fst ?obj)"
    by (rule obj_entries_eq) (simp add: keys distinct_newSet)
  then have "?obj = map (\<lambda>k. (k, the (objGet ?obj k))) (newSet ks)"
    by (simp only: keys)
  then show ?thesis
    using vals by (rule trans)
qed

lemma counts_of_rows:
  "foldl (\<lambda>counts row.
            if truthy (FINDINGS row) then increment counts (String_js (FINDINGS row)) else counts)
       obj data
     = foldl increment obj (map String_js (filter truthy (map FINDINGS data)))"
  by (induction data arbitrary: obj) simp_all

text \<open>A loop whose callback never fails on the rows it meets is a plain fold.\<close>

lemma forEach_pure:
  "(\<And>s x. x \<in> set xs \<Longrightarrow> step s x = Inr (f s x)) \<Longrightarrow> forEach step s xs = Inr (foldl f s xs)"
  by (induction xs arbitrary: s) simp_all

lemma forEach_fails:
  "x \<in> set xs \<Longrightarrow> (\<And>s. step s x = Inl e) \<Longrightarrow> (\<And>s y. y \<in> set xs \<Longrightarrow> step s y \<noteq> Inl e \<Longrightarrow> \<exists>s1. step s y = Inr s1)
     \<Longrightarrow> forEach step s xs = Inl e"
proof (induction xs arbitrary: s)
  case Nil
  then show ?case by simp
next
  case (Cons y ys)
  show ?case
  proof (cases "step s y")
    case (Inl e')
    with Cons.prems(3) [of y s] have "e' = e"
      by auto
    with Inl show ?thesis by simp
  next
    case (Inr s1)
    with Cons.prems(2) have "x \<noteq> y"
      by auto
    with Cons.prems(1) have "x \<in> set ys"
      by simp
    then have "forEach step s1 ys = Inl e"
      using Cons.prems(2,3) by (intro Cons.IH) simp_all
    with Inr show ?thesis by simp
  qed
qed

lemma getTopFindings_eq:
  assumes "\<forall>row\<in>set data. truthy (FINDINGS row) \<longrightarrow> \<not> inherited (String_js (FINDINGS row))"
  shows "getTopFindings data topN =
     Inr (let keys = map String_js (filter truthy (map FINDINGS data))
          in take topN (sort_key (\<lambda>p. - int (snd p))
               (map (\<lambda>k. (k, count_list keys k)) (Object_keys (newSet keys)))))"
proof -
  have "forEach (\<lambda>counts row.
                   let finding = FINDINGS row
                   in if truthy finding
                      then (if inherited (String_js finding) then Inl StringCount
                            else Inr (increment counts (String_js finding)))
                      else Inr counts)
          [] data
      = Inr (foldl (\<lambda>counts row.
                     if truthy (FINDINGS row) then increment counts (String_js (FINDINGS row))
                     else counts)
               [] data)"
    using assms by (intro forEach_pure) (simp add: Let_def)
  then have loop: "forEach (\<lambda>counts row.
                   let finding = FINDINGS row
                   in if truthy finding
                      then (if inherited (String_js finding) then Inl StringCount
                            else Inr (increment counts (String_js finding)))
                      else Inr counts)
          [] data
      = Inr (map (\<lambda>k. (k, count_list (map String_js (filter truthy (map FINDINGS data))) k))
               (newSet (map String_js (filter truthy (map FINDINGS data)))))"
    unfolding counts_of_rows counts_object .
  show ?thesis
    unfolding getTopFindings_def loop sum.case
    unfolding Let_def Object_entries_map sortBy_count
    by (rule refl)
qed

lemma getTopFindings_inherited:
  assumes "row \<in> set data" and "truthy (FINDINGS row)" and "inherited (String_js (FINDINGS row))"
  shows "getTopFindings data topN = Inl StringCount"
proof -
  have "forEach (\<lambda>counts row.
                   let finding = FINDINGS row
                   in if truthy finding
                      then (if inherited (String_js finding) then Inl StringCount
                            else Inr (increment counts (String_js finding)))
                      else Inr counts)
          [] data
      = Inl StringCount"
    using assms by (intro forEach_fails [where x = row]) (auto simp: Let_def)
  then show ?thesis
    by (simp add: getTopFindings_def)
qed


subsection \<open>Grouping patients under a key\<close>

lemma objGet_Some_key: "objGet obj k = Some v \<Longrightarrow> k \<in> fst ` set obj"
  by (auto simp: objGet_def dest: map_of_SomeD intro: rev_image_eqI)

lemma map_fst_addPatient: "map fst (addPatient grouped k e) = setAdd (map fst grouped) k"
  by (auto simp: addPatient_def Let_def map_fst_objSet objGet_objSet setAdd_def objGet_None_iff
      dest: objGet_Some_key split: option.splits)

lemma patientsOf_addPatient:
  "patientsOf (addPatient grouped k e) k'
     = (if k' = k \<and> e \<noteq> [] then setAdd (patientsOf grouped k') e else patientsOf grouped k')"
  by (auto simp: addPatient_def Let_def patientsOf_def objGet_objSet split: option.splits)

lemma grouped_keys:
  "map fst (foldl (\<lambda>grouped p. addPatient grouped (fst p) (snd p)) grouped kes)
     = foldl setAdd (map fst grouped) (map fst kes)"
  by (induction kes arbitrary: grouped) (simp_all add: map_fst_addPatient)

lemma grouped_patients:
  "patientsOf (foldl (\<lambda>grouped p. addPatient grouped (fst p) (snd p)) grouped kes) k
     = foldl setAdd (patientsOf grouped k) (map snd (filter (\<lambda>p. fst p = k \<and> snd p \<noteq> []) kes))"
  by (induction kes arbitrary: grouped) (simp_all add: patientsOf_addPatient)

lemma grouped_object:
  "map (\<lambda>p. (fst p, length (snd p)))
       (foldl (\<lambda>grouped p. addPatient grouped (fst p) (snd p)) [] kes)
     = map (\<lambda>k. (k, card {e. (k, e) \<in> set kes \<and> e \<noteq> []})) (newSet (map fst kes))"
proof -
  let ?obj = "foldl (\<lambda>grouped p. addPatient grouped (fst p) (snd p)) [] kes"
  have keys: "map fst ?obj = newSet (map fst kes)"
    by (simp add: grouped_keys newSet_def)
  have size: "length (the (objGet ?obj k)) = card {e. (k, e) \<in> set kes \<and> e \<noteq> []}"
    if "k \<in> set (newSet (map fst kes))" for k
  proof -
    from that keys have "objGet ?obj k \<noteq> None"
      by (simp add: objGet_None_iff)
    then have "the (objGet ?obj k) = patientsOf ?obj k"
      by (auto simp: patientsOf_def)
    also have "\<dots> = newSet (map snd (filter (\<lambda>p. fst p = k \<and> snd p \<noteq> []) kes))"
      by (simp add: grouped_patients newSet_def) (simp add: patientsOf_def objGet_def)
    finally have "length (the (objGet ?obj k))
        = card (set (map snd (filter (\<lambda>p. fst p = k \<and> snd p \<noteq> []) kes)))"
      by (simp add: length_newSet)
    moreover have "set (map snd (filter (\<lambda>p. fst p = k \<and> snd p \<noteq> []) kes))
        = {e. (k, e) \<in> set kes \<and> e \<noteq> []}"
      by force
    ultimately show ?thesis by simp
  qed
  have "?obj = map (\<lambda>k. (k, the (objGet ?obj k))) (map fst ?obj)"
    by (rule obj_entries_eq) (simp add: keys distinct_newSet)
  then have "?obj = map (\<lambda>k. (k, the (objGet ?obj k))) (newSet (map fst kes))"
    by (simp only: keys)
  then have "map (\<lambda>p. (fst p, length (snd p))) ?obj
      = map (\<lambda>k. (k, length (the (objGet ?obj k)))) (newSet (map fst kes))"
    by (metis (no_types, lifting) map_map comp_def fst_conv snd_conv map_eq_conv)
  also have "\<dots> = map (\<lambda>k. (k, card {e. (k, e) \<in> set kes \<and> e \<noteq> []})) (newSet (map fst kes))"
    using size by simp
  finally show ?thesis .
qed


lemma Object_entries_map_values:
  "map (\<lambda>p. (fst p, f (snd p))) (Object_entries obj)
     = Object_entries (map (\<lambda>p. (fst p, f (snd p))) obj)"
  by (simp add: Object_entries_def filter_map comp_def sort_key_map)

lemma grouped_entries:
  "map (\<lambda>(k, patients). (k, length patients))
       (Object_entries (foldl (\<lambda>grouped p. addPatient grouped (fst p) (snd p)) [] kes))
     = map (\<lambda>k. (k, card {e. (k, e) \<in> set kes \<and> e \<noteq> []})) (Object_keys (newSet (map fst kes)))"
  unfolding split_def Object_entries_map_values grouped_object Object_entries_map
  by (rule refl)

lemma Unknown_own: "\<not> inherited ''Unknown''"
  by (simp add: inherited_def Object_prototype_def)

lemma getSexDistribution_eq:
  assumes "\<forall>row\<in>set data. truthy (SEX row) \<longrightarrow> \<not> inherited (String_js (SEX row))"
  shows "getSexDistribution data =
     Inr (let sexOf = (\<lambda>row. if truthy (SEX row) then String_js (SEX row) else ''Unknown'')
          in map (\<lambda>k. (k, card {EMPLOYEE row |row. row \<in> set data \<and> sexOf row = k \<and> EMPLOYEE row \<noteq> []}))
               (Object_keys (newSet (map sexOf data))))"
proof -
  let ?sexOf = "\<lambda>row. if truthy (SEX row) then String_js (SEX row) else ''Unknown''"
  let ?kes = "map (\<lambda>row. (?sexOf row, EMPLOYEE row)) data"
  have loop: "forEach (\<lambda>grouped row.
                   let sex = (if truthy (SEX row) then String_js (SEX row) else ''Unknown'')
                   in if inherited sex
                      then (if EMPLOYEE row \<noteq> [] then Inl TypeError else Inr grouped)
                      else Inr (addPatient grouped sex (EMPLOYEE row)))
          [] data
      = Inr (foldl (\<lambda>grouped row. addPatient grouped (?sexOf row) (EMPLOYEE row)) [] data)"
    using assms by (intro forEach_pure) (simp add: Let_def Unknown_own)
  have fold: "foldl (\<lambda>grouped row. addPatient grouped (?sexOf row) (EMPLOYEE row)) g data
      = foldl (\<lambda>grouped p. addPatient grouped (fst p) (snd p)) g ?kes" for g
    by (simp add: foldl_map)
  have sets: "{e. (k, e) \<in> set ?kes \<and> e \<noteq> []}
      = {EMPLOYEE row |row. row \<in> set data \<and> ?sexOf row = k \<and> EMPLOYEE row \<noteq> []}" for k
    by auto
  have keys: "map fst ?kes = map ?sexOf data"
    by simp
  show ?thesis
    unfolding getSexDistribution_def loop sum.case
    unfolding Let_def fold grouped_entries sets keys
    by (rule refl)
qed

lemma grouped_dated_rows:
  "foldl (\<lambda>grouped row.
            case DATE row of
              None \<Rightarrow> grouped
            | Some date \<Rightarrow> addPatient grouped (key date) (EMPLOYEE row)) g data
     = foldl (\<lambda>grouped p. addPatient grouped (fst p) (snd p)) g
         (List.map_filter (\<lambda>row. map_option (\<lambda>date. (key date, EMPLOYEE row)) (DATE row)) data)"
  by (induction data arbitrary: g) (simp_all add: map_filter_simps split: option.splits)

lemma dated_rows_keys:
  "fst ` set (List.map_filter (\<lambda>row. map_option (\<lambda>date. (key date, EMPLOYEE row)) (DATE row)) data)
     = {key date |row date. row \<in> set data \<and> DATE row = Some date}"
  by (force simp: map_filter_def)

lemma dated_rows_patients:
  "{e. (k, e) \<in> set (List.map_filter (\<lambda>row. map_option (\<lambda>date. (key date, EMPLOYEE row)) (DATE row)) data)
        \<and> e \<noteq> []}
     = {EMPLOYEE row |row date. row \<in> set data \<and> DATE row = Some date \<and> key date = k \<and> EMPLOYEE row \<noteq> []}"
  by (force simp: map_filter_def)

lemma getPatientsPerDay_set:
  "set (getPatientsPerDay data)
     = (\<lambda>k. (k, card {EMPLOYEE row |row date.
                        row \<in> set data \<and> DATE row = Some date \<and> formatDateKey date = k \<and> EMPLOYEE row \<noteq> []}))
       ` {formatDateKey date |row date. row \<in> set data \<and> DATE row = Some date}"
  unfolding getPatientsPerDay_def Let_def grouped_dated_rows grouped_entries set_sortBy
  by (simp add: set_Object_keys set_newSet dated_rows_keys dated_rows_patients)

lemma getPatientsPerMonth_set:
  "set (getPatientsPerMonth z data)
     = (\<lambda>k. (k, card {EMPLOYEE row |row date.
                        row \<in> set data \<and> DATE row = Some date \<and> formatMonthKey z date = k \<and> EMPLOYEE row \<noteq> []}))
       ` {formatMonthKey z date |row date. row \<in> set data \<and> DATE row = Some date}"
  unfolding getPatientsPerMonth_def Let_def grouped_dated_rows grouped_entries set_sortBy
  by (simp add: set_Object_keys set_newSet dated_rows_keys dated_rows_patients)


subsection \<open>First row of each patient\<close>

lemma bracket_fold:
  "foldl (\<lambda>(grouped, seen) row.
            if EMPLOYEE row = [] \<or> setHas seen (EMPLOYEE row) then (grouped, seen)
            else (increment grouped (categorizeAgeBracket (AGE row)), setAdd seen (EMPLOYEE row)))
       (grouped, seen) data
     = (foldl increment grouped (map (\<lambda>row. categorizeAgeBracket (AGE row)) (firstRows seen data)),
        foldl setAdd seen (map EMPLOYEE (firstRows seen data)))"
  by (induction data arbitrary: grouped seen) (simp_all add: setHas_def)

lemma ages_fold:
  "foldl (\<lambda>(seen, ages) row.
            if EMPLOYEE row = [] \<or> setHas seen (EMPLOYEE row) then (seen, ages)
            else (case AGE row of
                    Some age \<Rightarrow>
                      if \<not> isNaN age then (setAdd seen (EMPLOYEE row), ages @ [age])
                      else (setAdd seen (EMPLOYEE row), ages)
                  | None \<Rightarrow> (setAdd seen (EMPLOYEE row), ages)))
       (seen, ages) data
     = (foldl setAdd seen (map EMPLOYEE (firstRows seen data)),
        ages @ List.map_filter (\<lambda>row. case AGE row of Some (Num a) \<Rightarrow> Some (Num a) | _ \<Rightarrow> None)
                 (firstRows seen data))"
  by (induction data arbitrary: seen ages)
     (auto simp: setHas_def map_filter_simps split: option.splits jsnum.splits)

lemma firstRows_iff:
  "row \<in> set (firstRows seen data)
     \<longleftrightarrow> EMPLOYEE row \<noteq> [] \<and> EMPLOYEE row \<notin> set seen
         \<and> find (\<lambda>x. EMPLOYEE x = EMPLOYEE row) data = Some row"
proof (induction data arbitrary: seen)
  case Nil
  then show ?case by simp
next
  case (Cons r rs)
  show ?case
    by (auto simp: Cons set_setAdd)
qed

lemma distinct_firstRows: "distinct (map EMPLOYEE (firstRows seen data))"
proof (induction data arbitrary: seen)
  case Nil
  then show ?case by simp
next
  case (Cons r rs)
  show ?case
    by (auto simp: Cons firstRows_iff set_setAdd)
qed

lemma firstRows_card:
  "length (filter P (firstRows [] data))
     = card {e. e \<noteq> [] \<and> (\<exists>row. find (\<lambda>x. EMPLOYEE x = e) data = Some row \<and> P row)}"
proof -
  let ?rows = "filter P (firstRows [] data)"
  have "distinct (map EMPLOYEE ?rows)"
    using distinct_firstRows [of "[]" data] by (rule distinct_map_filter)
  then have "card (set (map EMPLOYEE ?rows)) = length ?rows"
    using distinct_card [of "map EMPLOYEE ?rows"] by simp
  moreover have "set (map EMPLOYEE ?rows)
      = {e. e \<noteq> [] \<and> (\<exists>row. find (\<lambda>x. EMPLOYEE x = e) data = Some row \<and> P row)}"
  proof (intro set_eqI iffI)
    fix e
    assume "e \<in> set (map EMPLOYEE ?rows)"
    then obtain row where "row \<in> set (firstRows [] data)" "P row" "e = EMPLOYEE row"
      by auto
    then show "e \<in> {e. e \<noteq> [] \<and> (\<exists>row. find (\<lambda>x. EMPLOYEE x = e) data = Some row \<and> P row)}"
      by (auto simp: firstRows_iff)
  next
    fix e
    assume "e \<in> {e. e \<noteq> [] \<and> (\<exists>row. find (\<lambda>x. EMPLOYEE x = e) data = Some row \<and> P row)}"
    then obtain row where e: "e \<noteq> []" and row: "find (\<lambda>x. EMPLOYEE x = e) data = Some row" "P row"
      by auto
    from row(1) have "EMPLOYEE row = e"
      by (auto simp: find_Some_iff)
    with e row have "row \<in> set (firstRows [] data)"
      by (simp add: firstRows_iff)
    with \<open>P row\<close> \<open>EMPLOYEE row = e\<close> show "e \<in> set (map EMPLOYEE ?rows)"
      by force
  qed
  ultimately show ?thesis by simp
qed


lemma count_list_map: "count_list (map f xs) b = length (filter (\<lambda>x. f x = b) xs)"
  by (induction xs) simp_all

lemma getAgeBracketDistribution_rows:
  "getAgeBracketDistribution data =
     (let n = (\<lambda>b. length (filter (\<lambda>row. categorizeAgeBracket (AGE row) = b) (firstRows [] data)))
      in map (\<lambda>b. (b, n b)) (filter (\<lambda>b. n b \<noteq> 0) AGE_BRACKETS))"
proof -
  let ?bs = "map (\<lambda>row. categorizeAgeBracket (AGE row)) (firstRows [] data)"
  have "orZero (objGet (foldl increment [] ?bs) b)
      = length (filter (\<lambda>row. categorizeAgeBracket (AGE row) = b) (firstRows [] data))" for b
    unfolding counts_values count_list_map by (simp add: orZero_def objGet_def)
  then show ?thesis
    unfolding getAgeBracketDistribution_def Let_def
    unfolding bracket_fold split_conv
    by simp
qed

lemma categorizeAgeBracket_cases:
  "categorizeAgeBracket a = ''<18'' \<longleftrightarrow> (\<exists>q. a = Some (Num q) \<and> \<lfloor>q\<rfloor> < 18)"
  "categorizeAgeBracket a = ''18-24'' \<longleftrightarrow> (\<exists>q. a = Some (Num q) \<and> 18 \<le> \<lfloor>q\<rfloor> \<and> \<lfloor>q\<rfloor> \<le> 24)"
  "categorizeAgeBracket a = ''25-34'' \<longleftrightarrow> (\<exists>q. a = Some (Num q) \<and> 25 \<le> \<lfloor>q\<rfloor> \<and> \<lfloor>q\<rfloor> \<le> 34)"
  "categorizeAgeBracket a = ''35-44'' \<longleftrightarrow> (\<exists>q. a = Some (Num q) \<and> 35 \<le> \<lfloor>q\<rfloor> \<and> \<lfloor>q\<rfloor> \<le> 44)"
  "categorizeAgeBracket a = ''45-54'' \<longleftrightarrow> (\<exists>q. a = Some (Num q) \<and> 45 \<le> \<lfloor>q\<rfloor> \<and> \<lfloor>q\<rfloor> \<le> 54)"
  "categorizeAgeBracket a = ''55-64'' \<longleftrightarrow> (\<exists>q. a = Some (Num q) \<and> 55 \<le> \<lfloor>q\<rfloor> \<and> \<lfloor>q\<rfloor> \<le> 64)"
  "categorizeAgeBracket a = ''65-74'' \<longleftrightarrow> (\<exists>q. a = Some (Num q) \<and> 65 \<le> \<lfloor>q\<rfloor> \<and> \<lfloor>q\<rfloor> \<le> 74)"
  "categorizeAgeBracket a = ''75-84'' \<longleftrightarrow> (\<exists>q. a = Some (Num q) \<and> 75 \<le> \<lfloor>q\<rfloor> \<and> \<lfloor>q\<rfloor> \<le> 84)"
  "categorizeAgeBracket a = ''85+'' \<longleftrightarrow> (\<exists>q. a = Some (Num q) \<and> 85 \<le> \<lfloor>q\<rfloor>)"
  "categorizeAgeBracket a = ''Unknown'' \<longleftrightarrow> a = None \<or> a = Some NaN"
  by (auto simp: categorizeAgeBracket_def Let_def split: option.splits jsnum.splits)

lemma categorizeAgeBracket_known:
  "categorizeAgeBracket a \<in> set (filter (\<lambda>b. b \<noteq> ''Unknown'') AGE_BRACKETS) \<longleftrightarrow> (\<exists>q. a = Some (Num q))"
  by (auto simp: categorizeAgeBracket_def AGE_BRACKETS_def Let_def split: option.splits jsnum.splits)

lemma sum_nonzero_entries:
  "sum_list (map snd (filter (\<lambda>p. fst p \<noteq> u) (map (\<lambda>b. (b, n b)) (filter (\<lambda>b. n b \<noteq> (0::nat)) B))))
     = sum_list (map n (filter (\<lambda>b. b \<noteq> u) B))"
  by (induction B) simp_all

lemma sum_indicator: "distinct B \<Longrightarrow> (\<Sum>b\<leftarrow>B. if f x = b then 1 else 0) = (if f x \<in> set B then 1 else (0::nat))"
  by (induction B) auto

lemma sum_filter_lengths:
  "distinct B \<Longrightarrow> (\<Sum>b\<leftarrow>B. length (filter (\<lambda>x. f x = b) xs)) = length (filter (\<lambda>x. f x \<in> set B) xs)"
proof (induction xs)
  case Nil
  then show ?case by simp
next
  case (Cons x xs)
  have "(\<Sum>b\<leftarrow>B. length (filter (\<lambda>x. f x = b) (x # xs)))
      = (\<Sum>b\<leftarrow>B. (if f x = b then 1 else 0) + length (filter (\<lambda>x. f x = b) xs))"
    by (intro arg_cong [where f = sum_list] map_cong) simp_all
  also have "\<dots> = (\<Sum>b\<leftarrow>B. if f x = b then 1 else 0) + (\<Sum>b\<leftarrow>B. length (filter (\<lambda>x. f x = b) xs))"
    by (simp add: sum_list_addf)
  finally show ?case
    using Cons by (simp add: sum_indicator)
qed

lemma getAgeDistribution_rows:
  "getAgeDistribution data
     = List.map_filter (\<lambda>row. case AGE row of Some (Num a) \<Rightarrow> Some (Num a) | _ \<Rightarrow> None)
         (firstRows [] data)"
  unfolding getAgeDistribution_def Let_def
  unfolding ages_fold by simp

lemma length_map_filter: "length (List.map_filter f xs) = length (filter (\<lambda>x. f x \<noteq> None) xs)"
  by (simp add: map_filter_def)


text \<open>
  Claim C4, as amended. For every record set in which no finding is the name of a
  property of \<open>Object.prototype\<close> (\<open>constructor\<close>, \<open>toString\<close>, ...), \<open>getTopFindings\<close>
  counts, for each distinct text of a finding, the records that hold it (records, not
  patients), sorts the pairs by descending count with a stable sort, and returns the first
  \<open>topN\<close> of them. A record is left out of the counts when its finding is a value that
  JavaScript takes for false: missing (\<open>null\<close>, \<open>undefined\<close>), the empty text, and also
  the number 0 and \<open>false\<close>. Among equal counts the order is the one in which
  \<open>Object.entries\<close> lists the keys of the counting object: the findings whose text is
  an array index first, in ascending numeric order, then the other findings in the order of
  their first appearance in the input.
\<close>

theorem getTopFindings_ranking:
  assumes "\<forall>row\<in>set data. truthy (FINDINGS row) \<longrightarrow> String_js (FINDINGS row) \<notin> set Object_prototype"
  shows "getTopFindings data topN =
     Inr (let keys = map String_js (filter truthy (map FINDINGS data))
          in take topN (sort_key (\<lambda>p. - int (snd p))
               (map (\<lambda>k. (k, count_list keys k))
                  (sort_key readNat (filter isArrayIndex (newSet keys))
                   @ filter (\<lambda>k. \<not> isArrayIndex k) (newSet keys)))))
     \<and> (truthy v \<longleftrightarrow> v \<noteq> CNull \<and> v \<noteq> CUndefined \<and> v \<noteq> CStr [] \<and> v \<noteq> CNum 0 \<and> v \<noteq> CBool False)"
proof -
  have "truthy v \<longleftrightarrow> v \<noteq> CNull \<and> v \<noteq> CUndefined \<and> v \<noteq> CStr [] \<and> v \<noteq> CNum 0 \<and> v \<noteq> CBool False"
    by (cases v) auto
  moreover have "getTopFindings data topN =
     Inr (let keys = map String_js (filter truthy (map FINDINGS data))
          in take topN (sort_key (\<lambda>p. - int (snd p))
               (map (\<lambda>k. (k, count_list keys k)) (Object_keys (newSet keys)))))"
    using assms by (intro getTopFindings_eq) (simp add: inherited_def)
  ultimately show ?thesis
    by (simp add: Object_keys_def Let_def)
qed

theorem getTopFindings_ranking_witness:
  "map (\<lambda>row. String_js (FINDINGS row) \<in> set Object_prototype) scenario = [False, False, False]
   \<and> getTopFindings scenario 1 = Inr [(''F1'', 2)]
   \<and> getTopFindings scenario 15 = Inr [(''F1'', 2), (''F2'', 1)]"
proof -
  have h: "\<forall>row\<in>set scenario. truthy (FINDINGS row) \<longrightarrow> String_js (FINDINGS row) \<notin> set Object_prototype"
    by (simp add: scenario_def Object_prototype_def)
  have keys: "map (\<lambda>row. String_js (FINDINGS row) \<in> set Object_prototype) scenario = [False, False, False]"
    by (simp add: scenario_def Object_prototype_def)
  have "newSet [''F1'', ''F2'', ''F1''] = [''F1'', ''F2'']"
    by (simp add: newSet_def setAdd_def)
  moreover have "\<not> isArrayIndex ''F1''" "\<not> isArrayIndex ''F2''"
    by (simp_all add: isArrayIndex_def isDigit_def)
  ultimately show ?thesis
    using keys getTopFindings_ranking [OF h, of 1 CNull] getTopFindings_ranking [OF h, of 15 CNull]
    by (simp add: scenario_def Let_def)
qed

text \<open>
  The claim as first stated fails on two findings with the same count, the first a word and
  the second a number: the number comes first. It also fails on a finding that is the
  number 0, which is neither missing nor empty and is not counted. And a finding
  \<open>constructor\<close> gets a string for its count.
\<close>

theorem getTopFindings_ties_counterexample:
  "getTopFindings tieExample 15 = Inr [(''401'', 1), (''Hypertension'', 1)]
   \<and> getTopFindings_spec tieExample 15 = [(''Hypertension'', 1), (''401'', 1)]
   \<and> getTopFindings zeroFindingExample 15 = Inr [(''Asthma'', 1)]
   \<and> getTopFindings_spec zeroFindingExample 15 = [(''0'', 1), (''Asthma'', 1)]
   \<and> getTopFindings constructorExample 15 = Inl StringCount"
  by code_simp

text \<open>
  Claim C6, as amended. For every record set in which no sex is the name of a property of
  \<open>Object.prototype\<close>, \<open>getSexDistribution\<close> groups the records by sex, a record whose
  sex JavaScript takes for false (missing, the empty text, and also the number 0 and
  \<open>false\<close>) under \<open>Unknown\<close>, and returns one pair for every group present, with the
  number of distinct non-empty employee numbers among the group's records. The pairs
  come in the order in which \<open>Object.entries\<close> lists the groups (array-index keys first,
  then order of first appearance); they are not sorted by count.
\<close>

theorem getSexDistribution_groups:
  assumes "\<forall>row\<in>set data. truthy (SEX row) \<longrightarrow> String_js (SEX row) \<notin> set Object_prototype"
  shows "getSexDistribution data =
     Inr (let sexOf = (\<lambda>row. if truthy (SEX row) then String_js (SEX row) else ''Unknown'');
              groups = newSet (map sexOf data)
          in map (\<lambda>k. (k, card {EMPLOYEE row |row. row \<in> set data \<and> sexOf row = k \<and> EMPLOYEE row \<noteq> []}))
               (sort_key readNat (filter isArrayIndex groups) @ filter (\<lambda>k. \<not> isArrayIndex k) groups))
     \<and> (truthy v \<longleftrightarrow> v \<noteq> CNull \<and> v \<noteq> CUndefined \<and> v \<noteq> CStr [] \<and> v \<noteq> CNum 0 \<and> v \<noteq> CBool False)"
proof -
  have "truthy v \<longleftrightarrow> v \<noteq> CNull \<and> v \<noteq> CUndefined \<and> v \<noteq> CStr [] \<and> v \<noteq> CNum 0 \<and> v \<noteq> CBool False"
    by (cases v) auto
  moreover have "getSexDistribution data =
     Inr (let sexOf = (\<lambda>row. if truthy (SEX row) then String_js (SEX row) else ''Unknown'')
          in map (\<lambda>k. (k, card {EMPLOYEE row |row. row \<in> set data \<and> sexOf row = k \<and> EMPLOYEE row \<noteq> []}))
               (Object_keys (newSet (map sexOf data))))"
    using assms by (intro getSexDistribution_eq) (simp add: inherited_def)
  ultimately show ?thesis
    by (simp add: Object_keys_def Let_def)
qed

theorem getSexDistribution_groups_witness:
  "map (\<lambda>row. String_js (SEX row) \<in> set Object_prototype) sexExample = [False, False, False]
   \<and> getSexDistribution sexExample = Inr [(''M'', 1), (''F'', 2)]"
proof -
  have h: "\<forall>row\<in>set sexExample. truthy (SEX row) \<longrightarrow> String_js (SEX row) \<notin> set Object_prototype"
    by (simp add: sexExample_def Object_prototype_def)
  have keys: "map (\<lambda>row. String_js (SEX row) \<in> set Object_prototype) sexExample = [False, False, False]"
    by (simp add: sexExample_def Object_prototype_def)
  have "getSexDistribution sexExample = Inr [(''M'', 1), (''F'', 2)]"
    by code_simp
  with keys show ?thesis
    using getSexDistribution_groups [OF h, of CNull] by simp
qed

text \<open>
  The counts of the sex distribution need not descend. A sex that is the number 0 is
  counted under \<open>Unknown\<close>, and a sex \<open>constructor\<close> stops the function with a
  \<open>TypeError\<close>.
\<close>

theorem getSexDistribution_unsorted_counterexample:
  "getSexDistribution sexExample = Inr [(''M'', 1), (''F'', 2)]
   \<and> \<not> sorted (rev (map snd (projr (getSexDistribution sexExample))))
   \<and> getSexDistribution zeroFindingExample = Inr [(''Unknown'', 1), (''F'', 1)]
   \<and> getSexDistribution constructorExample = Inl TypeError"
  by code_simp

text \<open>
  Claim C5. \<open>getAgeBracketDistribution\<close> counts every distinct non-empty employee number
  once, under the bracket of the age on the first record of the input that carries the
  number; it returns the brackets that have at least one member, in the fixed order of
  \<open>AGE_BRACKETS\<close>. The bracket of an age is decided by its floor: below 18, 18 to 24,
  25 to 34, 35 to 44, 45 to 54, 55 to 64, 65 to 74, 75 to 84, 85 and above, and \<open>Unknown\<close>
  exactly when the age is \<open>null\<close>, \<open>undefined\<close> or not a number.
\<close>

theorem getAgeBracketDistribution_first_record:
  "getAgeBracketDistribution data =
     (let n = (\<lambda>b. card {e. e \<noteq> [] \<and> (\<exists>row. find (\<lambda>x. EMPLOYEE x = e) data = Some row
                                    \<and> categorizeAgeBracket (AGE row) = b)})
      in map (\<lambda>b. (b, n b)) (filter (\<lambda>b. n b \<noteq> 0) AGE_BRACKETS))
   \<and> AGE_BRACKETS = [''<18'', ''18-24'', ''25-34'', ''35-44'', ''45-54'', ''55-64'', ''65-74'',
                      ''75-84'', ''85+'', ''Unknown'']
   \<and> (categorizeAgeBracket a = ''<18'' \<longleftrightarrow> (\<exists>q. a = Some (Num q) \<and> \<lfloor>q\<rfloor> < 18))
   \<and> (categorizeAgeBracket a = ''18-24'' \<longleftrightarrow> (\<exists>q. a = Some (Num q) \<and> 18 \<le> \<lfloor>q\<rfloor> \<and> \<lfloor>q\<rfloor> \<le> 24))
   \<and> (categorizeAgeBracket a = ''25-34'' \<longleftrightarrow> (\<exists>q. a = Some (Num q) \<and> 25 \<le> \<lfloor>q\<rfloor> \<and> \<lfloor>q\<rfloor> \<le> 34))
   \<and> (categorizeAgeBracket a = ''35-44'' \<longleftrightarrow> (\<exists>q. a = Some (Num q) \<and> 35 \<le> \<lfloor>q\<rfloor> \<and> \<lfloor>q\<rfloor> \<le> 44))
   \<and> (categorizeAgeBracket a = ''45-54'' \<longleftrightarrow> (\<exists>q. a = Some (Num q) \<and> 45 \<le> \<lfloor>q\<rfloor> \<and> \<lfloor>q\<rfloor> \<le> 54))
   \<and> (categorizeAgeBracket a = ''55-64'' \<longleftrightarrow> (\<exists>q. a = Some (Num q) \<and> 55 \<le> \<lfloor>q\<rfloor> \<and> \<lfloor>q\<rfloor> \<le> 64))
   \<and> (categorizeAgeBracket a = ''65-74'' \<longleftrightarrow> (\<exists>q. a = Some (Num q) \<and> 65 \<le> \<lfloor>q\<rfloor> \<and> \<lfloor>q\<rfloor> \<le> 74))
   \<and> (categorizeAgeBracket a = ''75-84'' \<longleftrightarrow> (\<exists>q. a = Some (Num q) \<and> 75 \<le> \<lfloor>q\<rfloor> \<and> \<lfloor>q\<rfloor> \<le> 84))
   \<and> (categorizeAgeBracket a = ''85+'' \<longleftrightarrow> (\<exists>q. a = Some (Num q) \<and> 85 \<le> \<lfloor>q\<rfloor>))
   \<and> (categorizeAgeBracket a = ''Unknown'' \<longleftrightarrow> a = None \<or> a = Some NaN)"
proof -
  have "getAgeBracketDistribution data =
     (let n = (\<lambda>b. card {e. e \<noteq> [] \<and> (\<exists>row. find (\<lambda>x. EMPLOYEE x = e) data = Some row
                                    \<and> categorizeAgeBracket (AGE row) = b)})
      in map (\<lambda>b. (b, n b)) (filter (\<lambda>b. n b \<noteq> 0) AGE_BRACKETS))"
    unfolding getAgeBracketDistribution_rows firstRows_card by (rule refl)
  then show ?thesis
    by (simp only: categorizeAgeBracket_cases AGE_BRACKETS_def simp_thms)
qed

text \<open>
  Claim C8. The counts of the brackets other than \<open>Unknown\<close> that
  \<open>getAgeBracketDistribution\<close> returns add up to the number of distinct non-empty employee
  numbers whose first record has a numeric age, which is also the number of ages
  \<open>getAgeDistribution\<close> returns.
\<close>

theorem age_brackets_partition_patients:
  "sum_list (map snd (filter (\<lambda>p. fst p \<noteq> ''Unknown'') (getAgeBracketDistribution data)))
     = card {e. e \<noteq> [] \<and> (\<exists>row. find (\<lambda>x. EMPLOYEE x = e) data = Some row
                               \<and> (\<exists>q. AGE row = Some (Num q)))}
   \<and> length (getAgeDistribution data)
     = card {e. e \<noteq> [] \<and> (\<exists>row. find (\<lambda>x. EMPLOYEE x = e) data = Some row
                               \<and> (\<exists>q. AGE row = Some (Num q)))}"
proof -
  let ?known = "filter (\<lambda>b. b \<noteq> ''Unknown'') AGE_BRACKETS"
  have "distinct ?known"
    by (simp add: AGE_BRACKETS_def)
  then have "sum_list (map snd (filter (\<lambda>p. fst p \<noteq> ''Unknown'') (getAgeBracketDistribution data)))
      = length (filter (\<lambda>row. categorizeAgeBracket (AGE row) \<in> set ?known) (firstRows [] data))"
    unfolding getAgeBracketDistribution_rows Let_def sum_nonzero_entries
    by (rule sum_filter_lengths)
  also have "\<dots> = length (filter (\<lambda>row. \<exists>q. AGE row = Some (Num q)) (firstRows [] data))"
    unfolding categorizeAgeBracket_known by (rule refl)
  finally have brackets: "sum_list (map snd (filter (\<lambda>p. fst p \<noteq> ''Unknown'') (getAgeBracketDistribution data)))
      = card {e. e \<noteq> [] \<and> (\<exists>row. find (\<lambda>x. EMPLOYEE x = e) data = Some row
                               \<and> (\<exists>q. AGE row = Some (Num q)))}"
    unfolding firstRows_card .
  have "(\<lambda>row. (case AGE row of Some (Num a) \<Rightarrow> Some (Num a) | _ \<Rightarrow> None) \<noteq> None)
      = (\<lambda>row. \<exists>q. AGE row = Some (Num q))"
    by (rule ext) (auto split: option.splits jsnum.splits)
  then have "length (getAgeDistribution data)
      = length (filter (\<lambda>row. \<exists>q. AGE row = Some (Num q)) (firstRows [] data))"
    unfolding getAgeDistribution_rows length_map_filter by (rule arg_cong)
  with brackets show ?thesis
    unfolding firstRows_card by simp
qed

text \<open>
  Claim C10. A day (a month) is a group key: the records of a day are those whose dates
  give the same \<open>formatDateKey\<close> (\<open>formatMonthKey\<close>). When a record has a date and every
  record of its day (month) has an empty employee number, \<open>getPatientsPerDay\<close>
  (\<open>getPatientsPerMonth\<close>) still returns the entry of that day (month), with count 0. The
  keys returned are exactly the keys of the records that have a date: only the records
  without a date are left out.
\<close>

theorem empty_patient_group_kept:
  assumes "row \<in> set data" and "DATE row = Some date"
  shows "((\<forall>r\<in>set data. \<forall>d. DATE r = Some d \<and> formatDateKey d = formatDateKey date \<longrightarrow> EMPLOYEE r = [])
            \<longrightarrow> (formatDateKey date, 0) \<in> set (getPatientsPerDay data))
       \<and> ((\<forall>r\<in>set data. \<forall>d. DATE r = Some d \<and> formatMonthKey z d = formatMonthKey z date
                \<longrightarrow> EMPLOYEE r = [])
            \<longrightarrow> (formatMonthKey z date, 0) \<in> set (getPatientsPerMonth z data))
       \<and> fst ` set (getPatientsPerDay data)
           = {formatDateKey d |r d. r \<in> set data \<and> DATE r = Some d}
       \<and> fst ` set (getPatientsPerMonth z data)
           = {formatMonthKey z d |r d. r \<in> set data \<and> DATE r = Some d}"
proof (intro conjI impI)
  assume empty: "\<forall>r\<in>set data. \<forall>d. DATE r = Some d \<and> formatDateKey d = formatDateKey date \<longrightarrow> EMPLOYEE r = []"
  then have "{EMPLOYEE r |r d. r \<in> set data \<and> DATE r = Some d \<and> formatDateKey d = formatDateKey date
                \<and> EMPLOYEE r \<noteq> []} = {}"
    by auto
  then have "card {EMPLOYEE r |r d. r \<in> set data \<and> DATE r = Some d \<and> formatDateKey d = formatDateKey date
                \<and> EMPLOYEE r \<noteq> []} = 0"
    by simp
  moreover have "formatDateKey date \<in> {formatDateKey d |r d. r \<in> set data \<and> DATE r = Some d}"
    using assms by auto
  ultimately show "(formatDateKey date, 0) \<in> set (getPatientsPerDay data)"
    unfolding getPatientsPerDay_set by (intro image_eqI [where x = "formatDateKey date"]) simp_all
next
  assume empty: "\<forall>r\<in>set data. \<forall>d. DATE r = Some d \<and> formatMonthKey z d = formatMonthKey z date
      \<longrightarrow> EMPLOYEE r = []"
  then have "{EMPLOYEE r |r d. r \<in> set data \<and> DATE r = Some d \<and> formatMonthKey z d = formatMonthKey z date
                \<and> EMPLOYEE r \<noteq> []} = {}"
    by auto
  then have "card {EMPLOYEE r |r d. r \<in> set data \<and> DATE r = Some d \<and> formatMonthKey z d = formatMonthKey z date
                \<and> EMPLOYEE r \<noteq> []} = 0"
    by simp
  moreover have "formatMonthKey z date \<in> {formatMonthKey z d |r d. r \<in> set data \<and> DATE r = Some d}"
    using assms by auto
  ultimately show "(formatMonthKey z date, 0) \<in> set (getPatientsPerMonth z data)"
    unfolding getPatientsPerMonth_set by (intro image_eqI [where x = "formatMonthKey z date"]) simp_all
next
  show "fst ` set (getPatientsPerDay data) = {formatDateKey d |r d. r \<in> set data \<and> DATE r = Some d}"
    unfolding getPatientsPerDay_set by (simp add: image_image)
next
  show "fst ` set (getPatientsPerMonth z data)
      = {formatMonthKey z d |r d. r \<in> set data \<and> DATE r = Some d}"
    unfolding getPatientsPerMonth_set by (simp add: image_image)
qed

theorem empty_patient_group_kept_witness:
  "hd emptyDayExample \<in> set emptyDayExample
   \<and> DATE (hd emptyDayExample) = Some 1704412800000
   \<and> map EMPLOYEE emptyDayExample = ['''', ''E2'']
   \<and> formatDateKey 1704412800000 = ''2024-01-05''
   \<and> formatMonthKey (fixedOffset 0) 1704412800000 = ''2024-01''
   \<and> (''2024-01-05'', 0) \<in> set (getPatientsPerDay emptyDayExample)
   \<and> (''2024-01'', 0) \<in> set (getPatientsPerMonth (fixedOffset 0) emptyDayExample)"
proof -
  have keys: "formatDateKey 1704412800000 = ''2024-01-05''" "formatDateKey 1707523200000 = ''2024-02-10''"
    "formatMonthKey (fixedOffset 0) 1704412800000 = ''2024-01''" "formatMonthKey (fixedOffset 0) 1707523200000 = ''2024-02''"
    by code_simp+
  have h: "hd emptyDayExample \<in> set emptyDayExample" "DATE (hd emptyDayExample) = Some 1704412800000"
    by (simp_all add: emptyDayExample_def)
  show ?thesis
    using h empty_patient_group_kept [OF h, of "fixedOffset 0"]
    by (simp add: emptyDayExample_def keys)
qed


text \<open>
  Claim C7. On the three visits of the scenario, whose dates are 2024-01-05, 2024-01-05
  and 2024-02-10, \<open>getPatientsPerDay\<close> returns the entry for 2024-01-05 with count 1
  and then the entry for 2024-02-10 with count 1, and nothing else.
\<close>

theorem getPatientsPerDay_scenario:
  "map (\<lambda>row. map_option toISOString (DATE row)) scenario
     = [Some ''2024-01-05T00:00:00.000Z'', Some ''2024-01-05T00:00:00.000Z'',
        Some ''2024-02-10T00:00:00.000Z'']
   \<and> map EMPLOYEE scenario = [''E1'', ''E1'', ''E2'']
   \<and> getPatientsPerDay scenario = [(''2024-01-05'', 1), (''2024-02-10'', 1)]"
  by code_simp

section \<open>Properties of the loader\<close>








end
